theory Spec2Isabelle
  imports Complex_Main "HOL-Library.Sublist" "HOL-Library.Product_Lexorder"
begin

section \<open>Python values shared by the modules\<close>

subsection \<open>Floats\<close>

text \<open>
  A Python float is modelled as an exact rational or one of the three non-finite values.
  Binary rounding of the arithmetic is not modelled and signed zeros are identified: the
  sum, difference or quotient of finite values is the exact one, where CPython rounds it
  to the nearest double and overflows to an infinity. The properties proved below either
  do not reach the arithmetic or are evaluated at values on which double arithmetic is
  exact as well.
\<close>

datatype pyfloat = Fin rat | PInf | NInf | NaN

datatype py_error = ZeroDivisionError | ValueError | AttributeError

fun isfinite :: "pyfloat \<Rightarrow> bool" where
  "isfinite (Fin _) = True"
| "isfinite _ = False"

text \<open>Python's \<open>==\<close> on floats: a NaN is equal to nothing, itself included.\<close>

fun feq :: "pyfloat \<Rightarrow> pyfloat \<Rightarrow> bool" where
  "feq (Fin a) (Fin b) = (a = b)"
| "feq PInf PInf = True"
| "feq NInf NInf = True"
| "feq _ _ = False"

fun fneg :: "pyfloat \<Rightarrow> pyfloat" where
  "fneg (Fin a) = Fin (- a)"
| "fneg PInf = NInf"
| "fneg NInf = PInf"
| "fneg NaN = NaN"

fun fadd :: "pyfloat \<Rightarrow> pyfloat \<Rightarrow> pyfloat" where
  "fadd (Fin a) (Fin b) = Fin (a + b)"
| "fadd NaN _ = NaN"
| "fadd _ NaN = NaN"
| "fadd PInf NInf = NaN"
| "fadd NInf PInf = NaN"
| "fadd PInf _ = PInf"
| "fadd NInf _ = NInf"
| "fadd _ PInf = PInf"
| "fadd _ NInf = NInf"

definition fsub :: "pyfloat \<Rightarrow> pyfloat \<Rightarrow> pyfloat" where
  "fsub a b = fadd a (fneg b)"

text \<open>Float division; Python raises ZeroDivisionError on every zero divisor.\<close>

fun fdiv :: "pyfloat \<Rightarrow> pyfloat \<Rightarrow> py_error + pyfloat" where
  "fdiv a (Fin b) =
     (if b = 0 then Inl ZeroDivisionError
      else case a of
        Fin x \<Rightarrow> Inr (Fin (x / b))
      | PInf \<Rightarrow> Inr (if 0 < b then PInf else NInf)
      | NInf \<Rightarrow> Inr (if 0 < b then NInf else PInf)
      | NaN \<Rightarrow> Inr NaN)"
| "fdiv (Fin x) PInf = Inr (Fin 0)"
| "fdiv (Fin x) NInf = Inr (Fin 0)"
| "fdiv _ _ = Inr NaN"

text \<open>
  \<open>round(x, ndigits)\<close>: to the nearest multiple of \<open>10 ^ -ndigits\<close>, a tie going to the
  even neighbour.
\<close>

definition round_half_even :: "rat \<Rightarrow> int" where
  "round_half_even q =
     (let f = \<lfloor>q\<rfloor>; d = q - of_int f
      in if d < 1 / 2 then f
         else if 1 / 2 < d then f + 1
         else if even f then f else f + 1)"

definition py_round :: "rat \<Rightarrow> nat \<Rightarrow> rat" where
  "py_round x ndigits = of_int (round_half_even (x * 10 ^ ndigits)) / 10 ^ ndigits"

subsection \<open>Strings\<close>

text \<open>
  Strings are ASCII texts. \<open>str.lower\<close> maps the letters A to Z to a to z and leaves
  every other character alone.
\<close>

definition lower_char :: "char \<Rightarrow> char" where
  "lower_char c =
     (if of_char c \<ge> (65::nat) \<and> of_char c \<le> (90::nat)
      then char_of (of_char c + (32::nat)) else c)"

definition upper_char :: "char \<Rightarrow> char" where
  "upper_char c =
     (if of_char c \<ge> (97::nat) \<and> of_char c \<le> (122::nat)
      then char_of (of_char c - (32::nat)) else c)"

definition is_alpha :: "char \<Rightarrow> bool" where
  "is_alpha c \<longleftrightarrow>
     (of_char c \<ge> (65::nat) \<and> of_char c \<le> (90::nat)) \<or>
     (of_char c \<ge> (97::nat) \<and> of_char c \<le> (122::nat))"

definition lower :: "string \<Rightarrow> string" where
  "lower s = map lower_char s"

text \<open>Python's \<open>a in b\<close> on strings: \<open>a\<close> occurs in \<open>b\<close> as a contiguous piece.\<close>

definition str_in :: "string \<Rightarrow> string \<Rightarrow> bool" where
  "str_in a b = sublist a b"

text \<open>\<open>d.get(k, default)\<close> on a dictionary.\<close>

definition dict_get :: "('k \<rightharpoonup> 'v) \<Rightarrow> 'k \<Rightarrow> 'v \<Rightarrow> 'v" where
  "dict_get d k dflt = (case d k of None \<Rightarrow> dflt | Some v \<Rightarrow> v)"

text \<open>
  \<open>sorted(xs, key=f, reverse=True)\<close> and \<open>xs.sort(key=f, reverse=True)\<close>: descending
  by key, entries with equal keys staying in their original order.
\<close>

definition sorted_reverse :: "('a \<Rightarrow> 'k::linordered_ab_group_add) \<Rightarrow> 'a list \<Rightarrow> 'a list" where
  "sorted_reverse f xs = sort_key (\<lambda>x. - f x) xs"

section \<open>Models.py: scoring and reranking\<close>

subsection \<open>normalize\_score\<close>

text \<open>
  The body of the \<open>try\<close> block; the only exception the float arithmetic can raise is
  the division's.
\<close>

definition normalize_score_try :: "pyfloat \<Rightarrow> pyfloat \<Rightarrow> pyfloat \<Rightarrow> py_error + pyfloat" where
  "normalize_score_try v min_val max_val =
     (if feq max_val min_val then Inr (Fin (1 / 2))
      else if \<not> isfinite v then Inr (Fin 0)
      else fdiv (fsub v min_val) (fsub max_val min_val))"

definition normalize_score :: "pyfloat \<Rightarrow> pyfloat \<Rightarrow> pyfloat \<Rightarrow> pyfloat" where
  "normalize_score v min_val max_val =
     (case normalize_score_try v min_val max_val of
        Inl e \<Rightarrow> Fin 0
      | Inr r \<Rightarrow> r)"

definition in_unit_interval :: "pyfloat \<Rightarrow> bool" where
  "in_unit_interval x = (case x of Fin r \<Rightarrow> 0 \<le> r \<and> r \<le> 1 | _ \<Rightarrow> False)"

subsection \<open>category\_match and diversity\_penalty\<close>

text \<open>
  A \<open>type\<close> entry is \<open>None\<close> when the key is absent (what \<open>c.get("type")\<close> returns);
  \<open>not poi_type\<close> holds of \<open>None\<close> and of the empty string.
\<close>

definition category_match :: "string option \<Rightarrow> string list \<Rightarrow> rat" where
  "category_match poi_type user_interests =
     (case poi_type of
        None \<Rightarrow> 0
      | Some t \<Rightarrow>
          if t = [] \<or> user_interests = [] then 0
          else if lower t \<in> set (map lower user_interests) then 1 else 0)"

text \<open>
  \<open>selected\<close> holds the \<open>type\<close> entry of each candidate scored so far;
  \<open>c.get("type") or ""\<close> reads an absent type as the empty string.
\<close>

definition or_empty :: "string option \<Rightarrow> string" where
  "or_empty s = (case s of None \<Rightarrow> [] | Some t \<Rightarrow> t)"

definition diversity_penalty :: "string option list \<Rightarrow> string option \<Rightarrow> rat" where
  "diversity_penalty selected current_cat =
     (case current_cat of
        None \<Rightarrow> 0
      | Some cat \<Rightarrow>
          if cat = [] then 0
          else - (2 / 10) * of_nat (length (filter (\<lambda>c. lower (or_empty c) = lower cat) selected)))"

subsection \<open>score\_items\<close>

text \<open>
  A candidate dictionary. A field is \<open>None\<close> when the key is absent; the raw signals
  are finite floats.
\<close>

record candidate =
  cand_poi_id :: "int option"
  cand_city :: "string option"
  cand_country :: "string option"
  cand_type :: "string option"
  cand_semantic :: "rat option"
  cand_distance_km :: "rat option"

record user_ctx =
  interests :: "string list option"

type_synonym weights = "string \<rightharpoonup> rat"

record scored =
  item_poi_id :: "int option"
  item_city :: "string option"
  item_country :: "string option"
  item_type :: "string option"
  semantic :: rat
  distance :: rat
  category_score :: rat
  diversity_score :: rat
  final_score :: rat
  explanation :: string

text \<open>Decimal digits of a natural number, and the \<open>:.2f\<close> format of a float.\<close>

definition digit_char :: "nat \<Rightarrow> char" where
  "digit_char d = char_of (48 + d)"

fun show_nat :: "nat \<Rightarrow> string" where
  "show_nat n = (if n < 10 then [digit_char n] else show_nat (n div 10) @ [digit_char (n mod 10)])"

definition format_2f :: "rat \<Rightarrow> string" where
  "format_2f x =
     (let h = nat (round_half_even (\<bar>x\<bar> * 100))
      in (if x < 0 then ''-'' else []) @ show_nat (h div 100) @ ''.'' @
         [digit_char (h mod 100 div 10), digit_char (h mod 10)])"

text \<open>The value of a float known to be finite (every float \<open>score_items\<close> computes is).\<close>

fun fin_val :: "pyfloat \<Rightarrow> rat" where
  "fin_val (Fin r) = r"
| "fin_val _ = 0"

text \<open>\<open>(min(vals), max(vals)) if vals else (0.0, 1.0)\<close>\<close>

definition value_range :: "rat list \<Rightarrow> rat \<times> rat" where
  "value_range vals = (case vals of [] \<Rightarrow> (0, 1) | v # vs \<Rightarrow> (fold min vs v, fold max vs v))"

definition semantic_norm_of :: "rat list \<Rightarrow> candidate \<Rightarrow> rat" where
  "semantic_norm_of sem_vals c =
     (let (sem_min, sem_max) = value_range sem_vals;
          semantic_raw = (case cand_semantic c of None \<Rightarrow> 0 | Some v \<Rightarrow> v)
      in if sem_vals \<noteq> []
         then fin_val (normalize_score (Fin semantic_raw) (Fin sem_min) (Fin sem_max))
         else 1 / 2)"

definition distance_norm_of :: "rat list \<Rightarrow> candidate \<Rightarrow> rat" where
  "distance_norm_of dist_vals c =
     (let (dist_min, dist_max) = value_range dist_vals
      in case cand_distance_km c of
           None \<Rightarrow> 1 / 2
         | Some distance_raw \<Rightarrow>
             if dist_vals = [] then 1 / 2
             else 1 - fin_val (normalize_score (Fin distance_raw) (Fin dist_min) (Fin dist_max)))"

text \<open>
  The weighted sum in exact arithmetic. CPython rounds every product and partial sum to a
  double, so the value computed there can differ from this one in the last place, and
  after \<open>round(x, 3)\<close> in the third decimal; nothing below is stated about \<open>final_score\<close>.
\<close>

definition weighted_sum :: "weights \<Rightarrow> rat \<Rightarrow> rat \<Rightarrow> rat \<Rightarrow> rat \<Rightarrow> rat" where
  "weighted_sum w semantic_norm distance_norm cat_score div_score =
     dict_get w ''semantic'' (5 / 10) * semantic_norm +
     dict_get w ''distance'' (3 / 10) * distance_norm +
     dict_get w ''category'' (15 / 100) * cat_score +
     dict_get w ''diversity'' (5 / 100) * div_score"

text \<open>One pass of the \<open>for c in candidates\<close> body: the item built for \<open>c\<close>.\<close>

definition score_one ::
  "rat list \<Rightarrow> rat list \<Rightarrow> user_ctx \<Rightarrow> weights \<Rightarrow> string option list \<Rightarrow> candidate \<Rightarrow> scored" where
  "score_one sem_vals dist_vals ctx w selected_for_div c =
     (let semantic_norm = semantic_norm_of sem_vals c;
          distance_norm = distance_norm_of dist_vals c;
          cat_score = category_match (cand_type c)
                        (case interests ctx of None \<Rightarrow> [] | Some xs \<Rightarrow> xs);
          div_score = diversity_penalty selected_for_div (cand_type c);
          final = weighted_sum w semantic_norm distance_norm cat_score div_score
      in \<lparr> item_poi_id = cand_poi_id c,
           item_city = cand_city c,
           item_country = cand_country c,
           item_type = cand_type c,
           semantic = py_round semantic_norm 3,
           distance = py_round distance_norm 3,
           category_score = py_round cat_score 3,
           diversity_score = py_round div_score 3,
           final_score = py_round final 3,
           explanation = ''sem:'' @ format_2f semantic_norm @ '', dist:'' @ format_2f distance_norm @
                         '', cat:'' @ format_2f cat_score @ '', div:'' @ format_2f div_score \<rparr>)"

text \<open>The loop, carrying \<open>reranked\<close> and \<open>selected_for_div\<close>.\<close>

fun score_loop ::
  "rat list \<Rightarrow> rat list \<Rightarrow> user_ctx \<Rightarrow> weights \<Rightarrow> candidate list \<Rightarrow>
   scored list \<Rightarrow> string option list \<Rightarrow> scored list" where
  "score_loop sem_vals dist_vals ctx w [] reranked selected_for_div = reranked"
| "score_loop sem_vals dist_vals ctx w (c # cs) reranked selected_for_div =
     score_loop sem_vals dist_vals ctx w cs
       (reranked @ [score_one sem_vals dist_vals ctx w selected_for_div c])
       (selected_for_div @ [cand_type c])"

definition sem_vals_of :: "candidate list \<Rightarrow> rat list" where
  "sem_vals_of candidates = List.map_filter cand_semantic candidates"

definition dist_vals_of :: "candidate list \<Rightarrow> rat list" where
  "dist_vals_of candidates = List.map_filter cand_distance_km candidates"

text \<open>The items in input order, before the final sort.\<close>

definition scored_in_order :: "candidate list \<Rightarrow> user_ctx \<Rightarrow> weights \<Rightarrow> scored list" where
  "scored_in_order candidates ctx w =
     score_loop (sem_vals_of candidates) (dist_vals_of candidates) ctx w candidates [] []"

definition score_items :: "candidate list \<Rightarrow> user_ctx \<Rightarrow> weights \<Rightarrow> scored list" where
  "score_items candidates ctx w = sorted_reverse final_score (scored_in_order candidates ctx w)"

definition default_weights :: weights where
  "default_weights = [''semantic'' \<mapsto> 5 / 10, ''distance'' \<mapsto> 3 / 10,
                      ''category'' \<mapsto> 15 / 100, ''diversity'' \<mapsto> 5 / 100]"

definition rerank :: "candidate list \<Rightarrow> user_ctx \<Rightarrow> scored list" where
  "rerank candidates ctx = score_items candidates ctx default_weights"

section \<open>data\_preprocessor.py: the location index\<close>

text \<open>
  \<open>str.strip\<close> removes leading and trailing whitespace: tab, line feed, vertical tab,
  form feed, carriage return, the four separators 28 to 31, and the space.
\<close>

definition is_space :: "char \<Rightarrow> bool" where
  "is_space c \<longleftrightarrow>
     ((9::nat) \<le> of_char c \<and> of_char c \<le> (13::nat)) \<or>
     ((28::nat) \<le> of_char c \<and> of_char c \<le> (32::nat))"

definition strip :: "string \<Rightarrow> string" where
  "strip s = rev (dropWhile is_space (rev (dropWhile is_space s)))"

record poi =
  poi_id :: int
  poi_name :: string
  poi_type :: string
  poi_description :: string
  poi_city :: string
  poi_country :: string
  city_lower :: string
  country_lower :: string

text \<open>
  A row of the catalogue query: \<open>id, name, type, description, city_name, country_name\<close>,
  a text column being \<open>None\<close> for SQL NULL.
\<close>

type_synonym row = "int \<times> string option \<times> string option \<times> string option \<times> string option \<times> string option"

record preprocessor =
  all_pois :: "poi list"
  city_country_lookup :: "(string \<times> string) \<rightharpoonup> poi list"
  city_lookup :: "string \<rightharpoonup> poi list"
  country_lookup :: "string \<rightharpoonup> poi list"
  available_locations :: "(string \<times> string \<times> int) list"
  is_loaded :: bool

definition init_preprocessor :: preprocessor where
  "init_preprocessor =
     \<lparr> all_pois = [], city_country_lookup = Map.empty, city_lookup = Map.empty,
       country_lookup = Map.empty, available_locations = [], is_loaded = False \<rparr>"

text \<open>\<open>d[k].append(v)\<close> on a \<open>defaultdict(list)\<close>.\<close>

definition dd_append :: "('k \<rightharpoonup> 'v list) \<Rightarrow> 'k \<Rightarrow> 'v \<Rightarrow> ('k \<rightharpoonup> 'v list)" where
  "dd_append d k v = d(k \<mapsto> (case d k of None \<Rightarrow> [] | Some vs \<Rightarrow> vs) @ [v])"

text \<open>The body of \<open>for ... in rows\<close>: rows without a city or a country are skipped.\<close>

definition add_row :: "row \<Rightarrow> preprocessor \<Rightarrow> preprocessor" where
  "add_row r st =
     (case r of (pid, nm, raw_type, desc, city_name, country_name) \<Rightarrow>
        if or_empty city_name = [] \<or> or_empty country_name = [] then st
        else
          let cn = or_empty city_name; kn = or_empty country_name;
              poi_data = \<lparr> poi_id = pid,
                           poi_name = (if or_empty nm = [] then ''Unknown'' else or_empty nm),
                           poi_type = (if or_empty raw_type = [] then ''other'' else or_empty raw_type),
                           poi_description = or_empty desc,
                           poi_city = strip cn,
                           poi_country = strip kn,
                           city_lower = strip (lower cn),
                           country_lower = strip (lower kn) \<rparr>;
              city_key = strip (lower cn);
              country_key = strip (lower kn)
          in st\<lparr> all_pois := all_pois st @ [poi_data],
                  city_country_lookup := dd_append (city_country_lookup st) (city_key, country_key) poi_data,
                  city_lookup := dd_append (city_lookup st) city_key poi_data,
                  country_lookup := dd_append (country_lookup st) country_key poi_data \<rparr>)"

text \<open>
  \<open>location_counts[key] += 1\<close> on a \<open>defaultdict(int)\<close>, kept as an association list in
  insertion order, which is the order \<open>items()\<close> yields.
\<close>

fun count_incr :: "'k \<Rightarrow> ('k \<times> int) list \<Rightarrow> ('k \<times> int) list" where
  "count_incr k [] = [(k, 1)]"
| "count_incr k ((k', n) # kvs) =
     (if k = k' then (k', n + 1) # kvs else (k', n) # count_incr k kvs)"

definition location_counts :: "poi list \<Rightarrow> ((string \<times> string) \<times> int) list" where
  "location_counts pois = fold (\<lambda>p acc. count_incr (poi_city p, poi_country p) acc) pois []"

text \<open>
  \<open>load_all_data\<close>. The argument is what the database gives: \<open>None\<close> when connecting or
  querying raises (caught by the \<open>except\<close>), otherwise the rows fetched.
\<close>

definition load_all_data :: "row list option \<Rightarrow> preprocessor \<Rightarrow> bool \<times> preprocessor" where
  "load_all_data db st =
     (case db of
        None \<Rightarrow> (False, st)
      | Some rows \<Rightarrow>
          if rows = [] then (False, st)
          else
            let st1 = fold add_row rows (st\<lparr> all_pois := [] \<rparr>);
                locs = map (\<lambda>((c, k), n). (c, k, n)) (location_counts (all_pois st1));
                st2 = st1\<lparr> available_locations := sorted_reverse (\<lambda>x. snd (snd x)) locs,
                           is_loaded := True \<rparr>
            in (True, st2))"

text \<open>The fuzzy pass of \<open>find_pois_for_location\<close>.\<close>

definition fuzzy_match :: "string \<Rightarrow> string \<Rightarrow> poi \<Rightarrow> bool" where
  "fuzzy_match city_clean country_clean p \<longleftrightarrow>
     (str_in city_clean (city_lower p) \<or> str_in (city_lower p) city_clean) \<or>
     (str_in country_clean (country_lower p) \<or> str_in (country_lower p) country_clean)"

text \<open>
  \<open>find_pois_for_location\<close>; \<open>city\<close> and \<open>country\<close> may be Python's \<open>None\<close>, on which
  \<open>.lower()\<close> raises AttributeError.
\<close>

definition find_pois_for_location ::
  "row list option \<Rightarrow> preprocessor \<Rightarrow> string option \<Rightarrow> string option \<Rightarrow>
   (py_error + poi list) \<times> preprocessor" where
  "find_pois_for_location db st city country =
     (let (ok, st') = (if \<not> is_loaded st then load_all_data db st else (True, st))
      in if \<not> ok then (Inr [], st')
         else case (city, country) of
           (Some c, Some k) \<Rightarrow>
             (let city_clean = strip (lower c); country_clean = strip (lower k)
              in case city_country_lookup st' (city_clean, country_clean) of
                   Some pois \<Rightarrow> (Inr pois, st')
                 | None \<Rightarrow>
                    (case city_lookup st' city_clean of
                       Some pois \<Rightarrow> (Inr pois, st')
                     | None \<Rightarrow>
                        (case country_lookup st' country_clean of
                           Some pois \<Rightarrow> (Inr pois, st')
                         | None \<Rightarrow>
                             (Inr (filter (fuzzy_match city_clean country_clean) (all_pois st')), st'))))
         | _ \<Rightarrow> (Inl AttributeError, st'))"

definition get_available_locations :: "preprocessor \<Rightarrow> (string \<times> string \<times> int) list" where
  "get_available_locations st = available_locations st"

definition suggestion_match :: "string \<Rightarrow> string \<Rightarrow> string \<times> string \<times> int \<Rightarrow> bool" where
  "suggestion_match partial_city_lower partial_country_lower loc =
     (case loc of (c, k, n) \<Rightarrow>
        let city_match = (partial_city_lower = [] \<or> str_in partial_city_lower (lower c));
            country_match = (partial_country_lower = [] \<or> str_in partial_country_lower (lower k))
        in city_match \<or> country_match)"

definition get_location_suggestions ::
  "preprocessor \<Rightarrow> string \<Rightarrow> string \<Rightarrow> (string \<times> string \<times> int) list" where
  "get_location_suggestions st partial_city partial_country =
     take 20 (filter (suggestion_match (lower partial_city) (lower partial_country))
                (available_locations st))"

section \<open>itinerary.py: the itinerary assembler\<close>

subsection \<open>Themes and categories\<close>

text \<open>\<open>TOUR_THEMES\<close>, in the order the dictionary lists them: theme, keywords, boost.\<close>

definition TOUR_THEMES :: "(string \<times> string list \<times> rat) list" where
  "TOUR_THEMES =
     [(''cultural'', [''museum'', ''monument'', ''historic'', ''temple'', ''gallery'', ''heritage'',
                      ''church'', ''mosque'', ''castle'', ''ruins''], 25 / 100),
      (''adventure'', [''nature'', ''beach'', ''desert'', ''hiking'', ''diving'', ''snorkel'', ''quad'',
                       ''safari'', ''kayak'', ''trail'', ''climb''], 25 / 100),
      (''foodies'', [''restaurant'', ''cafe'', ''market'', ''street food'', ''bakery'', ''eatery'',
                     ''diner''], 30 / 100),
      (''family'', [''park'', ''zoo'', ''aquarium'', ''children'', ''playground'', ''amusement'',
                    ''family''], 20 / 100),
      (''couples'', [''romantic'', ''sunset'', ''candlelight'', ''spa'', ''scenic'', ''viewpoint'',
                     ''resort''], 25 / 100),
      (''friends'', [''bar'', ''club'', ''sports'', ''fun'', ''nightlife'', ''escape room'',
                     ''bowling''], 20 / 100)]"

definition any_in :: "string list \<Rightarrow> string \<Rightarrow> bool" where
  "any_in kws t = list_ex (\<lambda>x. str_in x t) kws"

definition normalize_category :: "string \<Rightarrow> string" where
  "normalize_category raw_type =
     (if raw_type = [] then ''other''
      else let t = lower raw_type in
        if any_in [''hotel'', ''resort'', ''hostel'', ''inn'', ''lodg''] t then ''hotel''
        else if any_in [''restaurant'', ''cafe'', ''bar'', ''pub'', ''food'', ''eat''] t then ''restaurant''
        else if any_in [''shop'', ''mall'', ''market'', ''store'', ''boutique'', ''bazaar''] t then ''shop''
        else if any_in [''museum'', ''nature'', ''beach'', ''park'', ''tourist'', ''monument'', ''landmark'',
                        ''viewpoint'', ''temple'', ''mosque'', ''church'', ''castle''] t
          then ''tourist place''
        else if any_in [''club'', ''entertainment'', ''nightlife''] t then ''entertainment''
        else ''other'')"

definition classify_theme_text :: "string \<Rightarrow> string list" where
  "classify_theme_text text =
     (if text = [] then []
      else let text_l = lower text
           in map fst (filter (\<lambda>(theme, keywords, boost). any_in keywords text_l) TOUR_THEMES))"

subsection \<open>select\_with\_hotel\<close>

text \<open>
  An itinerary candidate. \<open>c_city\<close> and \<open>c_country\<close> are \<open>None\<close> where the dictionary has
  no such key (the hotel placeholder) or holds Python's \<open>None\<close>.
\<close>

record place =
  c_poi_id :: int
  c_name :: string
  c_type :: string
  c_description :: string
  c_themes :: "string list"
  c_score :: rat
  c_city :: "string option"
  c_country :: "string option"

definition theme_score :: "string option \<Rightarrow> place \<Rightarrow> int" where
  "theme_score theme c =
     (case theme of
        None \<Rightarrow> 0
      | Some t \<Rightarrow> if t \<noteq> [] \<and> t \<in> set (c_themes c) then 1 else 0)"

text \<open>
  The \<open>for c in pool\<close> loop, carrying \<open>selected\<close>, \<open>seen_types\<close> and \<open>seen_ids\<close>; the
  first branch is the \<open>break\<close>.
\<close>

fun fill_loop :: "int \<Rightarrow> place list \<Rightarrow> place list \<Rightarrow> string set \<Rightarrow> int set \<Rightarrow> place list" where
  "fill_loop plan_size [] selected seen_types seen_ids = selected"
| "fill_loop plan_size (c # pool) selected seen_types seen_ids =
     (if int (length selected) \<ge> plan_size then selected
      else if c_poi_id c \<in> seen_ids then fill_loop plan_size pool selected seen_types seen_ids
      else if c_type c \<notin> seen_types then
        fill_loop plan_size pool (selected @ [c]) (insert (c_type c) seen_types)
          (insert (c_poi_id c) seen_ids)
      else if length (filter (\<lambda>s. c_type s = c_type c) selected) < 2 then
        fill_loop plan_size pool (selected @ [c]) seen_types (insert (c_poi_id c) seen_ids)
      else fill_loop plan_size pool selected seen_types seen_ids)"

definition dummy_hotel :: place where
  "dummy_hotel =
     \<lparr> c_poi_id = - 1, c_name = ''Hotel check-in / rest'', c_type = ''hotel'', c_description = [],
       c_themes = [], c_score = 0, c_city = None, c_country = None \<rparr>"

definition select_with_hotel :: "place list \<Rightarrow> int \<Rightarrow> string option \<Rightarrow> place list" where
  "select_with_hotel candidates plan_size0 theme =
     (let plan_size = (if plan_size0 < 2 then 2 else plan_size0);
          hotels = sorted_reverse c_score (filter (\<lambda>c. c_type c = ''hotel'') candidates);
          selected0 = (case hotels of [] \<Rightarrow> [] | hotel_pick # _ \<Rightarrow> [hotel_pick]);
          seen_ids0 = (case hotels of [] \<Rightarrow> {} | hotel_pick # _ \<Rightarrow> {c_poi_id hotel_pick});
          pool = filter (\<lambda>c. c_poi_id c \<notin> seen_ids0) candidates;
          seen_types0 = (case hotels of [] \<Rightarrow> {} | hotel_pick # _ \<Rightarrow> {''hotel''});
          pool_sorted = sort_key (\<lambda>c. (- theme_score theme c, - c_score c)) pool;
          selected1 = fill_loop plan_size pool_sorted selected0 seen_types0 seen_ids0;
          selected2 = (if \<not> list_ex (\<lambda>s. c_type s = ''hotel'') selected1
                       then dummy_hotel # selected1 else selected1);
          hotels2 = filter (\<lambda>s. c_type s = ''hotel'') selected2;
          selected3 = (if length hotels2 > 1
                       then hd hotels2 # take (nat (plan_size - 1))
                              (filter (\<lambda>s. c_type s \<noteq> ''hotel'') selected2)
                       else selected2)
      in take (nat plan_size) selected3)"

subsection \<open>build\_time\_slots\<close>

text \<open>
  \<open>datetime.strptime(s, "%H:%M")\<close>: one or two digits of hour (at most 23), a colon, one or
  two digits of minute (at most 59), and nothing after; anything else raises ValueError.
  The result is the number of minutes since midnight; the date part is the same for every
  parsed time.
\<close>

definition is_digit :: "char \<Rightarrow> bool" where
  "is_digit c \<longleftrightarrow> (48::nat) \<le> of_char c \<and> of_char c \<le> (57::nat)"

definition digit_val :: "char \<Rightarrow> nat" where
  "digit_val c = of_char c - 48"

text \<open>The minute directive \<open>[0-5]\d|\d\<close> and the check that no data remains.\<close>

fun parse_minute :: "string \<Rightarrow> nat option" where
  "parse_minute [m1, m2] =
     (if is_digit m1 \<and> is_digit m2 \<and> digit_val m1 \<le> 5 then Some (10 * digit_val m1 + digit_val m2)
      else None)"
| "parse_minute [m1] = (if is_digit m1 then Some (digit_val m1) else None)"
| "parse_minute _ = None"

text \<open>The hour directive \<open>2[0-3]|[0-1]\d|\d\<close> followed by the colon.\<close>

fun strptime :: "string \<Rightarrow> py_error + int" where
  "strptime (h1 # h2 # rest) =
     (if is_digit h1 \<and> is_digit h2 \<and> 10 * digit_val h1 + digit_val h2 \<le> 23 \<and>
         rest \<noteq> [] \<and> hd rest = CHR '':''
      then (case parse_minute (tl rest) of
              None \<Rightarrow> Inl ValueError
            | Some m \<Rightarrow> Inr (int (60 * (10 * digit_val h1 + digit_val h2) + m)))
      else if is_digit h1 \<and> h2 = CHR '':''
      then (case parse_minute rest of
              None \<Rightarrow> Inl ValueError
            | Some m \<Rightarrow> Inr (int (60 * digit_val h1 + m)))
      else Inl ValueError)"
| "strptime _ = Inl ValueError"

text \<open>\<open>dt.strftime("%H:%M")\<close> of a time given in minutes since the midnight of the parse.\<close>

definition two_digits :: "nat \<Rightarrow> string" where
  "two_digits k = [digit_char (k div 10), digit_char (k mod 10)]"

definition strftime :: "int \<Rightarrow> string" where
  "strftime t = two_digits (nat ((t div 60) mod 24)) @ '':'' @ two_digits (nat (t mod 60))"

definition snap_down :: "int \<Rightarrow> int" where
  "snap_down dt = (let minute = (if dt mod 60 < 30 then 0 else 30) in dt - dt mod 60 + minute)"

definition snap_up :: "int \<Rightarrow> int" where
  "snap_up dt =
     (if dt mod 60 = 0 then dt
      else if dt mod 60 \<le> 30 then dt - dt mod 60 + 30
      else dt - dt mod 60 + 60)"

text \<open>
  \<open>step\<close>: \<open>math.ceil\<close> of the true quotients. \<open>total_minutes\<close> is at most 1470, so the
  float quotients have the ceilings of the exact ones; only for a slot count beyond the
  float range does the first quotient underflow to 0 instead of rounding up to 1, and the
  step is 30 in both cases.
\<close>

definition slot_step :: "int \<Rightarrow> int \<Rightarrow> int" where
  "slot_step total_minutes n =
     (let raw_step = \<lceil>(of_int total_minutes :: rat) / of_int n\<rceil>
      in max 30 (\<lceil>(of_int raw_step :: rat) / 30\<rceil> * 30))"

text \<open>The \<open>for i in range(n)\<close> loop over the indices still to visit.\<close>

fun slot_loop :: "int \<Rightarrow> int \<Rightarrow> int \<Rightarrow> nat list \<Rightarrow> int \<Rightarrow> (string \<times> string) list \<Rightarrow> (string \<times> string) list" where
  "slot_loop end step n [] cur slots = slots"
| "slot_loop end step n (i # idxs) cur slots =
     (let nxt0 = cur + step;
          nxt = (if int i = n - 1 \<or> nxt0 > end then end else nxt0);
          slots' = slots @ [(strftime cur, strftime nxt)]
      in if nxt \<ge> end then slots' else slot_loop end step n idxs nxt slots')"

definition build_time_slots :: "string \<Rightarrow> string \<Rightarrow> int \<Rightarrow> py_error + (string \<times> string) list" where
  "build_time_slots start_time end_time n =
     (case strptime start_time of
        Inl e \<Rightarrow> Inl e
      | Inr start0 \<Rightarrow>
         (case strptime end_time of
            Inl e \<Rightarrow> Inl e
          | Inr end0 \<Rightarrow>
             (let start = snap_down start0;
                  end = snap_up end0;
                  total_minutes = max 0 (end - start)
              in if n \<le> 0 \<or> total_minutes = 0 then Inr []
                 else
                   let step = slot_step total_minutes n;
                       slots = slot_loop end step n [0..<nat n] start [];
                       padded = slots @ replicate (nat n - length slots) (strftime end, strftime end)
                   in Inr (take (nat n) padded))))"

subsection \<open>build\_itinerary\<close>

record slot_payload =
  pl_id :: int
  pl_name :: string
  pl_category :: string
  pl_start :: string
  pl_end :: string
  pl_day :: int

record day_plan =
  day :: int
  places :: "slot_payload list"

record itinerary =
  days_count :: int
  plan_name :: string
  short_description :: string
  days :: "day_plan list"

text \<open>
  The state \<open>build_itinerary\<close> works on: the module-level preprocessor and the function
  attribute \<open>_data_initialized\<close> (absent is \<open>False\<close>).
\<close>

record world =
  pre :: preprocessor
  data_initialized :: bool

text \<open>How an f-string prints a value that may be \<open>None\<close>, and an integer.\<close>

definition str_of :: "string option \<Rightarrow> string" where
  "str_of s = (case s of None \<Rightarrow> ''None'' | Some t \<Rightarrow> t)"

definition show_int :: "int \<Rightarrow> string" where
  "show_int i = (if i < 0 then ''-'' @ show_nat (nat (- i)) else show_nat (nat i))"

text \<open>\<open>str.title\<close>: a letter after a non-letter is upper-cased, a letter after a letter lower-cased.\<close>

fun title_from :: "bool \<Rightarrow> string \<Rightarrow> string" where
  "title_from prev [] = []"
| "title_from prev (c # cs) =
     (if is_alpha c then (if prev then lower_char c else upper_char c) # title_from True cs
      else c # title_from False cs)"

definition title :: "string \<Rightarrow> string" where
  "title s = title_from False s"

text \<open>\<open>TOUR_THEMES[theme]["boost"]\<close>, read only for a theme found in the table.\<close>

definition theme_boost :: "string \<Rightarrow> rat" where
  "theme_boost t = (case map_of TOUR_THEMES t of None \<Rightarrow> 0 | Some (keywords, boost) \<Rightarrow> boost)"

text \<open>The body of \<open>for poi_data in pois_data\<close>.\<close>

definition to_candidate :: "string option \<Rightarrow> poi \<Rightarrow> place" where
  "to_candidate theme p =
     (let base_type = normalize_category (poi_type p);
          themes = classify_theme_text (base_type @ '' '' @ poi_name p @ '' '' @ poi_description p);
          score = (case theme of
                     None \<Rightarrow> 1
                   | Some t \<Rightarrow> if t \<noteq> [] \<and> t \<in> set themes then 1 + theme_boost t else 1)
      in \<lparr> c_poi_id = poi_id p, c_name = poi_name p, c_type = base_type,
           c_description = poi_description p, c_themes = themes, c_score = score,
           c_city = Some (poi_city p), c_country = Some (poi_country p) \<rparr>)"

definition days_count_for :: "int \<Rightarrow> int" where
  "days_count_for available_places =
     (if available_places \<ge> 25 then min 6 (max 5 (available_places div 5))
      else if available_places \<ge> 20 then 4
      else if available_places \<ge> 15 then 3
      else 3)"

definition filler :: "string option \<Rightarrow> string option \<Rightarrow> place" where
  "filler cty ctry =
     \<lparr> c_poi_id = - 2, c_name = ''Free time / transit'', c_type = ''free time'',
       c_description = ''Buffer time for rest or transit'', c_themes = [], c_score = 0,
       c_city = cty, c_country = ctry \<rparr>"

text \<open>
  Selection, re-sort and underfill: the remaining candidates are appended until the target
  is reached, then fillers.
\<close>

definition select_places :: "place list \<Rightarrow> int \<Rightarrow> string option \<Rightarrow> string option \<Rightarrow> string option \<Rightarrow> place list" where
  "select_places candidates total_needed theme cty ctry =
     (let selected0 = select_with_hotel candidates total_needed theme;
          selected = sort_key (\<lambda>x. (if c_type x = ''hotel'' then 0 else 1 :: int, - c_score x)) selected0
      in if int (length selected) < total_needed then
           let selected_ids = set (map c_poi_id selected);
               remaining = sorted_reverse c_score (filter (\<lambda>c. c_poi_id c \<notin> selected_ids) candidates);
               selected' = selected @ take (nat total_needed - length selected) remaining
           in selected' @ replicate (nat total_needed - length selected') (filler cty ctry)
         else selected)"

text \<open>The \<open>for day_index in range(days_count)\<close> loop; \<open>build_time_slots\<close> may raise.\<close>

fun days_loop :: "string \<Rightarrow> string \<Rightarrow> place list \<Rightarrow> nat list \<Rightarrow> py_error + day_plan list" where
  "days_loop start_time end_time selected [] = Inr []"
| "days_loop start_time end_time selected (day_index # rest) =
     (let per_day = 5;
          day_places =
            (if day_index < length selected div per_day
             then take per_day (drop (day_index * per_day) selected)
             else take per_day (drop (day_index * per_day) selected))
      in case build_time_slots start_time end_time (int (length day_places)) of
           Inl e \<Rightarrow> Inl e
         | Inr time_slots \<Rightarrow>
            (let places_payload =
                   map (\<lambda>(c, (s, e)).
                          \<lparr> pl_id = c_poi_id c, pl_name = c_name c, pl_category = c_type c,
                            pl_start = s, pl_end = e, pl_day = int day_index + 1 \<rparr>)
                       (zip day_places time_slots)
             in case days_loop start_time end_time selected rest of
                  Inl e \<Rightarrow> Inl e
                | Inr ds \<Rightarrow> Inr (\<lparr> day = int day_index + 1, places = places_payload \<rparr> # ds)))"

definition famous_cities :: "(string \<times> string) list" where
  "famous_cities =
     [(''paris'', ''Parisian Adventure''), (''london'', ''London Explorer''),
      (''tokyo'', ''Tokyo Discovery''), (''new york'', ''NYC Experience''),
      (''rome'', ''Roman Holiday''), (''cairo'', ''Cairo Explorer''),
      (''dubai'', ''Dubai Luxury''), (''barcelona'', ''Barcelona Vibes''),
      (''sydney'', ''Sydney Explorer''), (''mumbai'', ''Mumbai Discovery'')]"

definition generate_tour_name :: "string \<Rightarrow> string \<Rightarrow> int \<Rightarrow> string" where
  "generate_tour_name cty ctry dc =
     (case map_of famous_cities (lower cty) of
        Some nm \<Rightarrow> show_int dc @ ''-Day '' @ nm
      | None \<Rightarrow> show_int dc @ ''-Day '' @ title cty @ '' Discovery'')"

definition generate_tour_description :: "string \<Rightarrow> string \<Rightarrow> int \<Rightarrow> int \<Rightarrow> int \<Rightarrow> string" where
  "generate_tour_description cty ctry dc per_day total_places =
     (let duration_desc =
            (if dc = 3 then ''Perfect weekend getaway''
             else if dc = 4 then ''Comprehensive exploration''
             else if dc = 5 then ''Deep cultural immersion''
             else if dc = 6 then ''Ultimate travel experience''
             else show_int dc @ ''-day adventure'')
      in ''A '' @ duration_desc @ '' in '' @ title cty @ '', '' @ title ctry @ ''. Discover '' @
         show_int total_places @ '' carefully selected places across '' @ show_int dc @
         '' days, with '' @ show_int per_day @ '' unique experiences each day.'')"

definition empty_itinerary :: "string option \<Rightarrow> string \<Rightarrow> itinerary" where
  "empty_itinerary cty msg =
     \<lparr> days_count = 0, plan_name = ''Trip in '' @ str_of cty, short_description = msg, days = [] \<rparr>"

text \<open>The part of \<open>build_itinerary\<close> after the POIs are found.\<close>

definition plan_from_pois ::
  "poi list \<Rightarrow> string option \<Rightarrow> string option \<Rightarrow> string \<Rightarrow> string \<Rightarrow> string option \<Rightarrow>
   py_error + itinerary" where
  "plan_from_pois pois_data cty ctry start_time end_time theme =
     (let candidates = map (to_candidate theme) pois_data
      in if candidates = [] then Inr (empty_itinerary cty ''No places found'')
         else
           let dc = days_count_for (int (length candidates));
               per_day = 5;
               total_needed = dc * per_day;
               selected = select_places candidates total_needed theme cty ctry
           in case days_loop start_time end_time selected [0..<nat dc] of
                Inl e \<Rightarrow> Inl e
              | Inr ds \<Rightarrow>
                 (case (cty, ctry) of
                    (Some c, Some k) \<Rightarrow>
                      Inr \<lparr> days_count = dc,
                            plan_name = generate_tour_name c k dc,
                            short_description = generate_tour_description c k dc per_day (dc * per_day),
                            days = ds \<rparr>
                  | _ \<Rightarrow> Inl AttributeError))"

text \<open>
  \<open>build_itinerary\<close>. The arguments \<open>lang\<close> and \<open>plan_size\<close> are not read by the body and are
  left out; \<open>db\<close> is what the database returns to \<open>load_all_data\<close>.
\<close>

definition build_itinerary ::
  "row list option \<Rightarrow> world \<Rightarrow> string option \<Rightarrow> string option \<Rightarrow> string \<Rightarrow> string \<Rightarrow>
   string option \<Rightarrow> (py_error + itinerary) \<times> world" where
  "build_itinerary db w cty ctry start_time end_time theme =
     (let (ok, w1) =
            (if \<not> data_initialized w then
               (let (loaded, p1) = load_all_data db (pre w)
                in if loaded then (True, \<lparr> pre = p1, data_initialized = True \<rparr>)
                   else (False, w\<lparr> pre := p1 \<rparr>))
             else (True, w))
      in if \<not> ok then (Inr (empty_itinerary cty ''Failed to load data''), w1)
         else
           let (found, p2) = find_pois_for_location db (pre w1) cty ctry;
               w2 = w1\<lparr> pre := p2 \<rparr>
           in case found of
                Inl e \<Rightarrow> (Inl e, w2)
              | Inr pois_data \<Rightarrow>
                  if pois_data = []
                  then (Inr (empty_itinerary cty
                               (''No places found for '' @ str_of cty @ '', '' @ str_of ctry)), w2)
                  else (plan_from_pois pois_data cty ctry start_time end_time theme, w2))"

section \<open>Reference notions used to state the properties\<close>

text \<open>
  The diversity score as the specification words it: \<open>-0.2\<close> times the number of
  candidates before position \<open>i\<close> whose type matches that of candidate \<open>i\<close> case-insensitively.
\<close>

definition types_match :: "string option \<Rightarrow> string option \<Rightarrow> bool" where
  "types_match a b = (case (a, b) of (Some x, Some y) \<Rightarrow> lower x = lower y | _ \<Rightarrow> False)"

definition spec_diversity_score :: "candidate list \<Rightarrow> nat \<Rightarrow> rat" where
  "spec_diversity_score cs i =
     - (2 / 10) * of_nat (length (filter (\<lambda>c. types_match (cand_type c) (cand_type (cs ! i))) (take i cs)))"

text \<open>A candidate dictionary with no key at all.\<close>

definition bare :: candidate where
  "bare = \<lparr> cand_poi_id = None, cand_city = None, cand_country = None, cand_type = None,
            cand_semantic = None, cand_distance_km = None \<rparr>"

text \<open>An itinerary candidate with the given id, type and score, for the instances below.\<close>

definition place_of :: "int \<Rightarrow> string \<Rightarrow> rat \<Rightarrow> place" where
  "place_of i t s =
     \<lparr> c_poi_id = i, c_name = ''place'', c_type = t, c_description = [], c_themes = [],
       c_score = s, c_city = None, c_country = None \<rparr>"

text \<open>
  The tiling in closed form: slot \<open>i\<close> runs from \<open>start + i * step\<close> to
  \<open>start + (i + 1) * step\<close>, both clamped to the end of the day.
\<close>

definition slot_at :: "int \<Rightarrow> int \<Rightarrow> int \<Rightarrow> nat \<Rightarrow> string \<times> string" where
  "slot_at start end step i =
     (strftime (min (start + int i * step) end), strftime (min (start + (int i + 1) * step) end))"

text \<open>
  Reading a printed time back: the minutes of a well-formed \<open>HH:MM\<close> string (-1
  otherwise), and whether it is a two-digit \<open>HH:MM\<close> on a \<open>:00\<close> or \<open>:30\<close> boundary.
\<close>

definition minutes_of :: "string \<Rightarrow> int" where
  "minutes_of s = (case strptime s of Inl e \<Rightarrow> - 1 | Inr m \<Rightarrow> m)"

definition on_half_hour :: "string \<Rightarrow> bool" where
  "on_half_hour s =
     (case strptime s of Inl e \<Rightarrow> False | Inr m \<Rightarrow> strftime m = s \<and> m mod 30 = 0)"

text \<open>A small catalogue for the instances below; its last row has no city.\<close>

definition rows0 :: "row list" where
  "rows0 = [(1, Some ''Pyramids'', Some ''monument'', None, Some ''Giza'', Some ''Egypt''),
            (2, Some ''Egyptian Museum'', Some ''museum'', Some ''Antiquities'', Some '' Cairo '', Some ''Egypt''),
            (3, Some ''Louvre'', Some ''museum'', None, Some ''Paris'', Some ''France''),
            (4, None, None, None, Some ''Cairo'', Some ''Egypt''),
            (5, Some ''Nowhere'', None, None, None, Some ''Egypt'')]"

definition state0 :: preprocessor where
  "state0 = snd (load_all_data (Some rows0) init_preprocessor)"

section \<open>Verified properties\<close>

subsection \<open>Scoring\<close>

lemma normalize_score_finite:
  "lo \<noteq> hi \<Longrightarrow> normalize_score (Fin v) (Fin lo) (Fin hi) = Fin ((v - lo) / (hi - lo))"
  by (simp add: normalize_score_def normalize_score_try_def fsub_def)

lemma normalize_score_no_spread: "feq hi lo \<Longrightarrow> normalize_score v lo hi = Fin (1 / 2)"
  by (simp add: normalize_score_def normalize_score_try_def)

lemma score_loop_append:
  "score_loop sv dv ctx w cs reranked sel =
     reranked @ map (\<lambda>i. score_one sv dv ctx w (sel @ map cand_type (take i cs)) (cs ! i)) [0..<length cs]"
proof (induction cs arbitrary: reranked sel)
  case Nil
  then show ?case by simp
next
  case (Cons c cs)
  have "map (\<lambda>i. score_one sv dv ctx w (sel @ map cand_type (take i (c # cs))) ((c # cs) ! i)) [0..<length (c # cs)]
        = score_one sv dv ctx w sel c #
          map (\<lambda>i. score_one sv dv ctx w ((sel @ [cand_type c]) @ map cand_type (take i cs)) (cs ! i)) [0..<length cs]"
    by (simp add: upt_conv_Cons map_Suc_upt[symmetric] o_def del: upt_Suc)
  then show ?case using Cons.IH by simp
qed

lemma scored_in_order_nth:
  "i < length cs \<Longrightarrow>
   scored_in_order cs ctx w ! i =
     score_one (sem_vals_of cs) (dist_vals_of cs) ctx w (map cand_type (take i cs)) (cs ! i)"
  by (simp add: scored_in_order_def score_loop_append)

lemma round_half_even_of_int: "round_half_even (of_int k) = k"
  by (simp add: round_half_even_def)

lemma py_round_fifths: "py_round (- (2 / 10) * of_nat k) 3 = - (2 / 10) * of_nat k"
proof -
  have "(- (2 / 10) * of_nat k) * 10 ^ 3 = (of_int (- 200 * int k) :: rat)" by simp
  then have "round_half_even ((- (2 / 10) * of_nat k) * 10 ^ 3) = - 200 * int k"
    using round_half_even_of_int by metis
  then show ?thesis by (simp add: py_round_def)
qed

lemma py_round_0: "py_round 0 n = 0"
  by (simp add: py_round_def round_half_even_def)

lemma diversity_code_spec:
  assumes "cand_type (cs ! i) = Some t" "t \<noteq> []"
  shows "diversity_penalty (map cand_type (take i cs)) (cand_type (cs ! i)) = spec_diversity_score cs i"
proof -
  have "(lower (or_empty a) = lower t) = types_match a (Some t)" for a
    using assms(2) by (cases a) (auto simp: or_empty_def types_match_def lower_def)
  then show ?thesis using assms
    by (simp add: diversity_penalty_def spec_diversity_score_def filter_map o_def)
qed

text \<open>
  Claim C3 (the code departs from it). \<open>normalize_score\<close> is documented to normalise a
  score into the [0,1] range, and the claim asks for a result in [0,1] for every finite
  value when \<open>lo < hi\<close>. With \<open>lo = 0\<close> and \<open>hi = 1\<close> the finite value 2 is mapped to 2: the
  quotient \<open>(2 - 0) / (1 - 0)\<close>, which double arithmetic computes exactly, is returned as
  it is. On the degenerate range \<open>lo = hi = 1\<close> the same value gives 0.5, as claimed.
\<close>

theorem normalize_score_leaves_unit_interval:
  "normalize_score (Fin 2) (Fin 0) (Fin 1) = Fin 2 \<and>
   \<not> in_unit_interval (normalize_score (Fin 2) (Fin 0) (Fin 1)) \<and>
   normalize_score (Fin 2) (Fin 1) (Fin 1) = Fin (1 / 2)"
  by (simp add: normalize_score_finite normalize_score_no_spread in_unit_interval_def)

text \<open>
  Claim C9 (amended). For a value \<open>v\<close> that is not finite, \<open>normalize_score(v, min, max)\<close>
  returns 0.0 when \<open>max != min\<close> and 0.5 when \<open>max == min\<close>, the degenerate-range test coming
  first. No input makes it raise: every exception of the body is turned into 0.0.
\<close>

theorem normalize_score_nonfinite:
  "\<not> isfinite v \<Longrightarrow>
   normalize_score v min_val max_val = (if feq max_val min_val then Fin (1 / 2) else Fin 0)"
  by (simp add: normalize_score_def normalize_score_try_def)

theorem normalize_score_nonfinite_witness:
  "\<not> isfinite NInf \<and> normalize_score NInf (Fin 0) (Fin 1) = Fin 0"
  using normalize_score_nonfinite [of NInf "Fin 0" "Fin 1"] by simp

text \<open>
  The claim as stated fails: for the non-finite value \<open>inf\<close> and the pair \<open>(1, 1)\<close> the
  result is 0.5, not 0.0.
\<close>

theorem normalize_score_nonfinite_counterexample:
  "\<not> isfinite PInf \<and> normalize_score PInf (Fin 1) (Fin 1) = Fin (1 / 2) \<and>
   normalize_score PInf (Fin 1) (Fin 1) \<noteq> Fin 0"
  by (simp add: normalize_score_no_spread)

text \<open>
  Claim C4 (the code departs from it). Of three candidates, the first two carry
  \<open>semantic\<close> 1 and 2 and the third has no \<open>semantic\<close> key. The third is not given the
  neutral 0.5: its missing signal is read as 0.0 and normalised against the range of the
  others, which gives -1, while its missing distance is given 0.5.
\<close>

theorem missing_semantic_not_neutral:
  "semantic (scored_in_order
       [bare\<lparr>cand_semantic := Some 1\<rparr>, bare\<lparr>cand_semantic := Some 2\<rparr>, bare]
       \<lparr>interests = None\<rparr> Map.empty ! 2) = - 1 \<and>
   semantic_norm_of (sem_vals_of [bare\<lparr>cand_semantic := Some 1\<rparr>, bare\<lparr>cand_semantic := Some 2\<rparr>, bare])
       bare = - 1 \<and>
   distance (scored_in_order
       [bare\<lparr>cand_distance_km := Some 1\<rparr>, bare\<lparr>cand_distance_km := Some 2\<rparr>, bare]
       \<lparr>interests = None\<rparr> Map.empty ! 2) = 1 / 2"
  by code_simp

text \<open>
  Claim C5 (amended). For the candidate at input position \<open>i\<close> whose type is present and
  not empty, \<open>diversity_score\<close> is \<open>-0.2\<close> times the number of candidates at positions
  before \<open>i\<close> whose type matches its type case-insensitively: a running penalty over the
  candidates already scored. A candidate whose type is missing or empty gets 0.
\<close>

theorem diversity_score_running:
  assumes "i < length cs"
  shows "diversity_score (scored_in_order cs ctx w ! i) =
     (case cand_type (cs ! i) of
        None \<Rightarrow> 0
      | Some t \<Rightarrow> if t = [] then 0 else spec_diversity_score cs i)"
proof (cases "cand_type (cs ! i)")
  case None
  then show ?thesis using assms
    by (simp add: scored_in_order_nth score_one_def Let_def diversity_penalty_def py_round_0)
next
  case (Some t)
  show ?thesis
  proof (cases "t = []")
    case True
    then show ?thesis using assms Some
      by (simp add: scored_in_order_nth score_one_def Let_def diversity_penalty_def py_round_0)
  next
    case False
    have "diversity_penalty (map cand_type (take i cs)) (cand_type (cs ! i)) = spec_diversity_score cs i"
      using diversity_code_spec [OF Some False] .
    moreover have "py_round (spec_diversity_score cs i) 3 = spec_diversity_score cs i"
      unfolding spec_diversity_score_def by (rule py_round_fifths)
    ultimately show ?thesis using assms Some False
      by (simp add: scored_in_order_nth score_one_def Let_def)
  qed
qed

text \<open>
  An instance: of the types \<open>Hotel\<close>, \<open>cafe\<close>, \<open>hotel\<close>, \<open>HOTEL\<close> the last one has two
  matching predecessors and the score -0.4.
\<close>

theorem diversity_score_running_witness:
  "(3::nat) < length [bare\<lparr>cand_type := Some ''Hotel''\<rparr>, bare\<lparr>cand_type := Some ''cafe''\<rparr>,
                      bare\<lparr>cand_type := Some ''hotel''\<rparr>, bare\<lparr>cand_type := Some ''HOTEL''\<rparr>] \<and>
   diversity_score (scored_in_order
       [bare\<lparr>cand_type := Some ''Hotel''\<rparr>, bare\<lparr>cand_type := Some ''cafe''\<rparr>,
        bare\<lparr>cand_type := Some ''hotel''\<rparr>, bare\<lparr>cand_type := Some ''HOTEL''\<rparr>]
       \<lparr>interests = None\<rparr> Map.empty ! 3) = - (4 / 10)"
proof -
  let ?cs = "[bare\<lparr>cand_type := Some ''Hotel''\<rparr>, bare\<lparr>cand_type := Some ''cafe''\<rparr>,
              bare\<lparr>cand_type := Some ''hotel''\<rparr>, bare\<lparr>cand_type := Some ''HOTEL''\<rparr>]"
  have len: "(3::nat) < length ?cs" by simp
  have "(case cand_type (?cs ! 3) of
          None \<Rightarrow> 0
        | Some t \<Rightarrow> if t = [] then 0 else spec_diversity_score ?cs 3) = - (4 / 10)"
    by code_simp
  then show ?thesis
    using len diversity_score_running [OF len, of "\<lparr>interests = None\<rparr>" Map.empty] by simp
qed

text \<open>
  The claim as stated fails: of two candidates whose type is the empty string, the second
  has one predecessor of a matching type, which would give -0.2, and its score is 0.
\<close>

theorem diversity_score_empty_type_counterexample:
  "diversity_score (scored_in_order
       [bare\<lparr>cand_type := Some []\<rparr>, bare\<lparr>cand_type := Some []\<rparr>]
       \<lparr>interests = None\<rparr> Map.empty ! 1) = 0 \<and>
   spec_diversity_score [bare\<lparr>cand_type := Some []\<rparr>, bare\<lparr>cand_type := Some []\<rparr>] 1 = - (2 / 10)"
  by code_simp

subsection \<open>Selection with one hotel\<close>

lemma fill_loop_extends:
  "\<exists>ys. fill_loop ps pool sel st si = sel @ ys \<and> set ys \<subseteq> set pool"
proof (induction ps pool sel st si rule: fill_loop.induct)
  case (1 ps sel st si)
  then show ?case by simp
next
  case (2 ps c pool sel st si)
  show ?case
  proof (cases "int (length sel) \<ge> ps")
    case True
    then show ?thesis by simp
  next
    case brk: False
    show ?thesis
    proof (cases "c_poi_id c \<in> si")
      case True
      then obtain ys where "fill_loop ps pool sel st si = sel @ ys" "set ys \<subseteq> set pool"
        using brk 2(1) by auto
      then show ?thesis using brk True by auto
    next
      case notseen: False
      show ?thesis
      proof (cases "c_type c \<notin> st \<or> length (filter (\<lambda>s. c_type s = c_type c) sel) < 2")
        case True
        then obtain ys where
          ys: "fill_loop ps (c # pool) sel st si = (sel @ [c]) @ ys" "set ys \<subseteq> set pool"
          using brk notseen 2(2) 2(3) by (cases "c_type c \<notin> st") auto
        have "fill_loop ps (c # pool) sel st si = sel @ (c # ys)" using ys(1) by simp
        moreover have "set (c # ys) \<subseteq> set (c # pool)" using ys(2) by auto
        ultimately show ?thesis by blast
      next
        case False
        then obtain ys where "fill_loop ps pool sel st si = sel @ ys" "set ys \<subseteq> set pool"
          using brk notseen 2(4) by auto
        then show ?thesis using brk notseen False by auto
      qed
    qed
  qed
qed

lemma fill_loop_distinct:
  "distinct (map c_poi_id sel) \<Longrightarrow> c_poi_id ` set sel \<subseteq> si \<Longrightarrow>
   distinct (map c_poi_id (fill_loop ps pool sel st si))"
proof (induction ps pool sel st si rule: fill_loop.induct)
  case (1 ps sel st si)
  then show ?case by simp
next
  case (2 ps c pool sel st si)
  show ?case
  proof (cases "int (length sel) \<ge> ps")
    case True
    then show ?thesis using 2(5) by simp
  next
    case brk: False
    show ?thesis
    proof (cases "c_poi_id c \<in> si")
      case True
      then show ?thesis using brk 2(1) 2(5) 2(6) by simp
    next
      case notseen: False
      then have new: "c_poi_id c \<notin> c_poi_id ` set sel" using 2(6) by blast
      have d: "distinct (map c_poi_id (sel @ [c]))" using 2(5) new by simp
      have s: "c_poi_id ` set (sel @ [c]) \<subseteq> insert (c_poi_id c) si" using 2(6) by auto
      show ?thesis
      proof (cases "c_type c \<notin> st")
        case True
        then show ?thesis using brk notseen 2(2) d s by simp
      next
        case False
        then show ?thesis using brk notseen 2(3) 2(4) 2(5) 2(6) d s by simp
      qed
    qed
  qed
qed

lemma sorted_reverse_set: "set (sorted_reverse f xs) = set xs"
  by (simp add: sorted_reverse_def)

lemma sorted_reverse_Nil_iff: "sorted_reverse f xs = [] \<longleftrightarrow> xs = []"
  by (metis sorted_reverse_set set_empty)

lemma select_no_hotel:
  assumes "filter (\<lambda>c. c_type c = ''hotel'') cands = []"
  shows "\<exists>ys. set ys \<subseteq> set cands \<and> distinct (map c_poi_id ys) \<and>
           select_with_hotel cands ps th =
             take (nat (if ps < 2 then 2 else ps)) (dummy_hotel # ys)"
proof -
  let ?P = "if ps < 2 then 2 else ps"
  let ?pool = "sort_key (\<lambda>c. (- theme_score th c, - c_score c)) cands"
  let ?sel1 = "fill_loop ?P ?pool [] {} {}"
  have hs: "sorted_reverse c_score (filter (\<lambda>c. c_type c = ''hotel'') cands) = []"
    using assms by (simp add: sorted_reverse_Nil_iff)
  obtain ys where ys: "?sel1 = [] @ ys" "set ys \<subseteq> set ?pool"
    using fill_loop_extends by blast
  have sub: "set ?sel1 \<subseteq> set cands" using ys by simp
  have nohotel: "\<forall>s \<in> set ?sel1. c_type s \<noteq> ''hotel''"
    using sub assms by (auto simp: filter_empty_conv)
  have d: "distinct (map c_poi_id ?sel1)"
    by (rule fill_loop_distinct) simp_all
  have ex: "\<not> list_ex (\<lambda>s. c_type s = ''hotel'') ?sel1"
    using nohotel by (simp add: list_ex_iff)
  have f: "filter (\<lambda>s. c_type s = ''hotel'') ?sel1 = []"
    using nohotel by (simp add: filter_empty_conv)
  have "select_with_hotel cands ps th = take (nat ?P) (dummy_hotel # ?sel1)"
    unfolding select_with_hotel_def Let_def hs using ex f
    by (simp add: dummy_hotel_def)
  then show ?thesis using sub d by blast
qed

lemma select_some_hotel:
  assumes "filter (\<lambda>c. c_type c = ''hotel'') cands \<noteq> []"
  shows "\<exists>h ys. h \<in> set cands \<and> c_type h = ''hotel'' \<and> set ys \<subseteq> set cands \<and>
           distinct (map c_poi_id (h # ys)) \<and>
           select_with_hotel cands ps th =
             take (nat (if ps < 2 then 2 else ps))
               (if filter (\<lambda>s. c_type s = ''hotel'') ys \<noteq> []
                then h # take (nat ((if ps < 2 then 2 else ps) - 1)) (filter (\<lambda>s. c_type s \<noteq> ''hotel'') ys)
                else h # ys)"
proof -
  let ?P = "if ps < 2 then 2 else ps"
  let ?hs = "sorted_reverse c_score (filter (\<lambda>c. c_type c = ''hotel'') cands)"
  obtain h rest where hs: "?hs = h # rest"
    using assms by (cases ?hs) (auto simp: sorted_reverse_Nil_iff)
  have "h \<in> set ?hs" using hs by simp
  then have hin: "h \<in> set cands" and hty: "c_type h = ''hotel''"
    by (auto simp: sorted_reverse_set)
  let ?pool = "sort_key (\<lambda>c. (- theme_score th c, - c_score c))
                 (filter (\<lambda>c. c_poi_id c \<notin> {c_poi_id h}) cands)"
  let ?sel1 = "fill_loop ?P ?pool [h] {''hotel''} {c_poi_id h}"
  obtain ys where ys: "?sel1 = [h] @ ys" "set ys \<subseteq> set ?pool"
    using fill_loop_extends by blast
  have sub: "set ys \<subseteq> set cands" using ys(2) by auto
  have d: "distinct (map c_poi_id ?sel1)"
    by (rule fill_loop_distinct) simp_all
  have ex: "list_ex (\<lambda>s. c_type s = ''hotel'') ?sel1"
    using ys(1) hty by (simp add: list_ex_iff)
  have "select_with_hotel cands ps th =
          take (nat ?P)
               (if filter (\<lambda>s. c_type s = ''hotel'') ys \<noteq> []
                then h # take (nat (?P - 1)) (filter (\<lambda>s. c_type s \<noteq> ''hotel'') ys)
                else h # ys)"
    unfolding select_with_hotel_def Let_def hs using ex ys(1) hty
    by (auto simp: neq_Nil_conv)
  moreover have "distinct (map c_poi_id (h # ys))" using d ys(1) by simp
  ultimately show ?thesis using hin hty sub by blast
qed

text \<open>
  Claim C2. For every candidate pool (empty or not), every plan size and every theme the
  list returned by \<open>select_with_hotel\<close> contains exactly one item of type \<open>hotel\<close>. When
  the pool has no candidate of type \<open>hotel\<close>, the item at position 0 is the placeholder
  with \<open>poi_id = -1\<close>, name \<open>Hotel check-in / rest\<close> and score 0.
\<close>

theorem select_with_hotel_one_hotel:
  "length (filter (\<lambda>s. c_type s = ''hotel'') (select_with_hotel cands ps th)) = 1 \<and>
   (filter (\<lambda>c. c_type c = ''hotel'') cands = [] \<longrightarrow>
      select_with_hotel cands ps th \<noteq> [] \<and>
      select_with_hotel cands ps th ! 0 = dummy_hotel \<and>
      c_poi_id (select_with_hotel cands ps th ! 0) = - 1 \<and>
      c_name (select_with_hotel cands ps th ! 0) = ''Hotel check-in / rest'' \<and>
      c_type (select_with_hotel cands ps th ! 0) = ''hotel'' \<and>
      c_score (select_with_hotel cands ps th ! 0) = 0)"
proof (cases "filter (\<lambda>c. c_type c = ''hotel'') cands = []")
  case True
  let ?P = "if ps < 2 then 2 else ps"
  obtain ys where ys: "set ys \<subseteq> set cands"
    and r: "select_with_hotel cands ps th = take (nat ?P) (dummy_hotel # ys)"
    using select_no_hotel [OF True] by blast
  obtain k where k: "nat ?P = Suc k" by (cases "nat ?P") (auto split: if_splits)
  have r': "select_with_hotel cands ps th = dummy_hotel # take k ys" using r k by simp
  have "\<forall>s \<in> set ys. c_type s \<noteq> ''hotel''"
    using ys True by (auto simp: filter_empty_conv)
  then have "\<forall>s \<in> set (take k ys). c_type s \<noteq> ''hotel''"
    by (meson in_set_takeD)
  then have "filter (\<lambda>s. c_type s = ''hotel'') (take k ys) = []"
    by (simp add: filter_empty_conv)
  then show ?thesis using r' by (simp add: dummy_hotel_def)
next
  case False
  let ?P = "if ps < 2 then 2 else ps"
  obtain h ys where hty: "c_type h = ''hotel''"
    and r: "select_with_hotel cands ps th =
             take (nat ?P)
               (if filter (\<lambda>s. c_type s = ''hotel'') ys \<noteq> []
                then h # take (nat (?P - 1)) (filter (\<lambda>s. c_type s \<noteq> ''hotel'') ys)
                else h # ys)"
    using select_some_hotel [OF False] by blast
  obtain k where k: "nat ?P = Suc k" by (cases "nat ?P") (auto split: if_splits)
  have "length (filter (\<lambda>s. c_type s = ''hotel'') (select_with_hotel cands ps th)) = 1"
  proof (cases "filter (\<lambda>s. c_type s = ''hotel'') ys \<noteq> []")
    case True
    have "\<forall>s \<in> set (take k (take (nat (?P - 1)) (filter (\<lambda>s. c_type s \<noteq> ''hotel'') ys))).
            c_type s \<noteq> ''hotel''"
      by (auto dest!: in_set_takeD)
    then have "filter (\<lambda>s. c_type s = ''hotel'')
                 (take k (take (nat (?P - 1)) (filter (\<lambda>s. c_type s \<noteq> ''hotel'') ys))) = []"
      unfolding filter_empty_conv by blast
    then show ?thesis using r True k hty by simp
  next
    case noh: False
    then have "\<forall>s \<in> set (take k ys). c_type s \<noteq> ''hotel''"
      by (auto simp: filter_empty_conv dest!: in_set_takeD)
    then have "filter (\<lambda>s. c_type s = ''hotel'') (take k ys) = []"
      unfolding filter_empty_conv by blast
    then show ?thesis using r noh k hty by simp
  qed
  then show ?thesis using False by simp
qed

text \<open>
  Claim C10. When no candidate has \<open>poi_id = -1\<close>, the \<open>poi_id\<close> values of the list
  returned by \<open>select_with_hotel\<close> are pairwise distinct, also when the input repeats
  entries.
\<close>

theorem select_with_hotel_distinct_ids:
  assumes "\<forall>c \<in> set cands. c_poi_id c \<noteq> - 1"
  shows "distinct (map c_poi_id (select_with_hotel cands ps th))"
proof (cases "filter (\<lambda>c. c_type c = ''hotel'') cands = []")
  case True
  let ?P = "if ps < 2 then 2 else ps"
  obtain ys where ys: "set ys \<subseteq> set cands" and d: "distinct (map c_poi_id ys)"
    and r: "select_with_hotel cands ps th = take (nat ?P) (dummy_hotel # ys)"
    using select_no_hotel [OF True] by blast
  have "c_poi_id dummy_hotel \<notin> c_poi_id ` set ys"
    using ys assms by (auto simp: dummy_hotel_def)
  then have "distinct (map c_poi_id (dummy_hotel # ys))" using d by simp
  then have "distinct (take (nat ?P) (map c_poi_id (dummy_hotel # ys)))"
    by (rule distinct_take)
  then show ?thesis unfolding r take_map .
next
  case False
  let ?P = "if ps < 2 then 2 else ps"
  obtain h ys where d: "distinct (map c_poi_id (h # ys))"
    and r: "select_with_hotel cands ps th =
             take (nat ?P)
               (if filter (\<lambda>s. c_type s = ''hotel'') ys \<noteq> []
                then h # take (nat (?P - 1)) (filter (\<lambda>s. c_type s \<noteq> ''hotel'') ys)
                else h # ys)"
    using select_some_hotel [OF False] by blast
  have d1: "distinct (map c_poi_id (h # take (nat (?P - 1)) (filter (\<lambda>s. c_type s \<noteq> ''hotel'') ys)))"
  proof -
    have "distinct (map c_poi_id (filter (\<lambda>s. c_type s \<noteq> ''hotel'') ys))"
      using d by (simp add: distinct_map_filter)
    then have "distinct (take (nat (?P - 1)) (map c_poi_id (filter (\<lambda>s. c_type s \<noteq> ''hotel'') ys)))"
      by (rule distinct_take)
    moreover have "c_poi_id h \<notin> c_poi_id ` set (take (nat (?P - 1)) (filter (\<lambda>s. c_type s \<noteq> ''hotel'') ys))"
      using d by (auto dest!: in_set_takeD)
    ultimately show ?thesis by (simp add: take_map)
  qed
  have "distinct (map c_poi_id
          (if filter (\<lambda>s. c_type s = ''hotel'') ys \<noteq> []
           then h # take (nat (?P - 1)) (filter (\<lambda>s. c_type s \<noteq> ''hotel'') ys)
           else h # ys))"
  proof (cases "filter (\<lambda>s. c_type s = ''hotel'') ys = []")
    case True
    then show ?thesis using d by simp
  next
    case False
    then show ?thesis using d1 by simp
  qed
  then have "distinct (take (nat ?P) (map c_poi_id
          (if filter (\<lambda>s. c_type s = ''hotel'') ys \<noteq> []
           then h # take (nat (?P - 1)) (filter (\<lambda>s. c_type s \<noteq> ''hotel'') ys)
           else h # ys)))"
    by (rule distinct_take)
  then show ?thesis unfolding r take_map .
qed

text \<open>
  An instance for C2: four candidates without a hotel (one listed twice) and plan size 2
  give the placeholder followed by the best-scored shop.
\<close>

theorem select_with_hotel_one_hotel_witness:
  "filter (\<lambda>c. c_type c = ''hotel'')
     [place_of 3 ''shop'' 1, place_of 3 ''shop'' 1, place_of 4 ''shop'' 5, place_of 2 ''other'' 1] = [] \<and>
   select_with_hotel
     [place_of 3 ''shop'' 1, place_of 3 ''shop'' 1, place_of 4 ''shop'' 5, place_of 2 ''other'' 1] 2 None
     = [dummy_hotel, place_of 4 ''shop'' 5] \<and>
   c_poi_id (select_with_hotel
     [place_of 3 ''shop'' 1, place_of 3 ''shop'' 1, place_of 4 ''shop'' 5, place_of 2 ''other'' 1] 2 None ! 0)
     = - 1"
proof -
  let ?cs = "[place_of 3 ''shop'' 1, place_of 3 ''shop'' 1, place_of 4 ''shop'' 5, place_of 2 ''other'' 1]"
  have h: "filter (\<lambda>c. c_type c = ''hotel'') ?cs = []" by code_simp
  have v: "select_with_hotel ?cs 2 None = [dummy_hotel, place_of 4 ''shop'' 5]" by code_simp
  show ?thesis
    using h v select_with_hotel_one_hotel [of ?cs 2 None] by simp
qed

text \<open>
  An instance for C10: seven candidates, with the id 3 listed twice and the id 2 used by a
  hotel and by another place; the ids selected are 2, 4 and 3.
\<close>

theorem select_with_hotel_distinct_ids_witness:
  "map c_poi_id [place_of 1 ''hotel'' 1, place_of 2 ''hotel'' 2, place_of 3 ''shop'' 1,
                 place_of 3 ''shop'' 1, place_of 4 ''shop'' 5, place_of 5 ''shop'' 1,
                 place_of 2 ''other'' 1] = [1, 2, 3, 3, 4, 5, 2] \<and>
   distinct (map c_poi_id (select_with_hotel
     [place_of 1 ''hotel'' 1, place_of 2 ''hotel'' 2, place_of 3 ''shop'' 1,
      place_of 3 ''shop'' 1, place_of 4 ''shop'' 5, place_of 5 ''shop'' 1,
      place_of 2 ''other'' 1] 6 None)) \<and>
   map c_poi_id (select_with_hotel
     [place_of 1 ''hotel'' 1, place_of 2 ''hotel'' 2, place_of 3 ''shop'' 1,
      place_of 3 ''shop'' 1, place_of 4 ''shop'' 5, place_of 5 ''shop'' 1,
      place_of 2 ''other'' 1] 6 None) = [2, 4, 3]"
proof -
  let ?cs = "[place_of 1 ''hotel'' 1, place_of 2 ''hotel'' 2, place_of 3 ''shop'' 1,
      place_of 3 ''shop'' 1, place_of 4 ''shop'' 5, place_of 5 ''shop'' 1,
      place_of 2 ''other'' 1]"
  have h: "\<forall>c \<in> set ?cs. c_poi_id c \<noteq> - 1" by (simp add: place_of_def)
  have v: "map c_poi_id (select_with_hotel ?cs 6 None) = [2, 4, 3]" by code_simp
  have ids: "map c_poi_id ?cs = [1, 2, 3, 3, 4, 5, 2]" by (simp add: place_of_def)
  show ?thesis
    using ids v select_with_hotel_distinct_ids [OF h, of 6 None] by simp
qed

subsection \<open>Time tiling\<close>

lemma hour_floor_half: "((t::int) - t mod 60) mod 30 = 0"
proof -
  have "t - t mod 60 = 30 * (2 * (t div 60))" by (simp add: minus_mod_eq_mult_div)
  then show ?thesis by simp
qed

lemma snap_down_bounds: "snap_down t \<le> t \<and> t < snap_down t + 30 \<and> snap_down t mod 30 = 0"
proof -
  have r: "0 \<le> t mod 60" "t mod 60 < 60" by simp_all
  have m: "(t - t mod 60 + 30) mod 30 = 0" using hour_floor_half [of t] by simp
  show ?thesis
  proof (cases "t mod 60 < 30")
    case True
    then show ?thesis using r hour_floor_half [of t] by (simp add: snap_down_def)
  next
    case False
    then show ?thesis using r m by (simp add: snap_down_def)
  qed
qed

lemma snap_up_bounds: "t \<le> snap_up t \<and> snap_up t < t + 30 \<and> snap_up t mod 30 = 0"
proof -
  have r: "0 \<le> t mod 60" "t mod 60 < 60" by simp_all
  have m30: "(t - t mod 60 + 30) mod 30 = 0" using hour_floor_half [of t] by simp
  have "t - t mod 60 + 60 = 30 * (2 * (t div 60) + 2)" by (simp add: minus_mod_eq_mult_div)
  then have m60: "(t - t mod 60 + 60) mod 30 = 0" by simp
  consider "t mod 60 = 0" | "t mod 60 \<noteq> 0" "t mod 60 \<le> 30" | "30 < t mod 60" by linarith
  then show ?thesis
  proof cases
    case 1
    then have "t mod 30 = 0" using hour_floor_half [of t] by simp
    then show ?thesis using 1 by (simp add: snap_up_def)
  next
    case 2
    then show ?thesis using r m30 by (simp add: snap_up_def)
  next
    case 3
    then show ?thesis using r m60 by (simp add: snap_up_def)
  qed
qed

lemma ceiling_div_covers:
  assumes "0 < (d::int)"
  shows "t \<le> \<lceil>(of_int t :: rat) / of_int d\<rceil> * d"
proof -
  have "(of_int t :: rat) / of_int d \<le> of_int \<lceil>(of_int t :: rat) / of_int d\<rceil>"
    by (rule le_of_int_ceiling)
  moreover have dpos: "0 < (of_int d :: rat)" using assms by simp
  ultimately have "(of_int t :: rat) \<le> of_int \<lceil>(of_int t :: rat) / of_int d\<rceil> * of_int d"
    by (simp only: pos_divide_le_eq [OF dpos])
  then have "(of_int t :: rat) \<le> of_int (\<lceil>(of_int t :: rat) / of_int d\<rceil> * d)" by simp
  then show ?thesis by (simp only: of_int_le_iff)
qed

lemma slot_step_ge_30: "30 \<le> slot_step t n"
  by (simp add: slot_step_def Let_def)

lemma slot_step_covers:
  assumes "0 < n"
  shows "t \<le> int (nat n) * slot_step t n"
proof -
  let ?raw = "\<lceil>(of_int t :: rat) / of_int n\<rceil>"
  have a: "t \<le> ?raw * n" using ceiling_div_covers [OF assms] .
  have "?raw \<le> \<lceil>(of_int ?raw :: rat) / of_int 30\<rceil> * 30"
    by (rule ceiling_div_covers) simp
  then have b: "?raw \<le> slot_step t n" by (simp add: slot_step_def Let_def)
  have "?raw * n \<le> slot_step t n * n"
    using b assms by (simp add: mult_right_mono)
  then have "t \<le> slot_step t n * n" using a by linarith
  moreover have "int (nat n) = n" using assms by simp
  ultimately show ?thesis by (simp only: mult.commute)
qed

lemma slot_at_Suc: "slot_at (cur + step) e step j = slot_at cur e step (Suc j)"
  by (simp add: slot_at_def algebra_simps)

lemma slot_at_past:
  assumes "0 < step" "e \<le> cur + step" "0 < j"
  shows "slot_at cur e step j = (strftime e, strftime e)"
proof -
  have "step \<le> int j * step" using assms(1,3) by simp
  then have "e \<le> cur + int j * step" using assms(2) by linarith
  moreover have "e \<le> cur + (int j + 1) * step"
    using calculation assms(1) by (simp add: algebra_simps)
  ultimately show ?thesis by (simp add: slot_at_def min_def)
qed

lemma slot_loop_closed:
  assumes "0 < step" "cur < e" "e \<le> cur + int (length idxs) * step" "idxs = [i..<nat n]"
  shows "length (slot_loop e step n idxs cur slots) \<le> length slots + length idxs \<and>
         slot_loop e step n idxs cur slots @
           replicate (length slots + length idxs - length (slot_loop e step n idxs cur slots))
             (strftime e, strftime e)
         = slots @ map (slot_at cur e step) [0..<length idxs]"
  using assms
proof (induction idxs arbitrary: cur slots i)
  case Nil
  then show ?case by simp
next
  case (Cons j idxs)
  have i: "j = i" "idxs = [Suc i..<nat n]" "i < nat n"
    using Cons.prems(4) [symmetric] by (auto simp: upt_eq_Cons_conv)
  have last_iff: "int j = n - 1 \<longleftrightarrow> idxs = []" using i by auto
  have first: "slot_at cur e step 0 = (strftime cur, strftime (min (cur + step) e))"
    using Cons.prems(2) by (simp add: slot_at_def min_def)
  have split: "map (slot_at cur e step) [0..<length (j # idxs)]
      = slot_at cur e step 0 # map (\<lambda>k. slot_at cur e step (Suc k)) [0..<length idxs]"
    by (simp add: upt_conv_Cons map_Suc_upt[symmetric] o_def del: upt_Suc)
  show ?case
  proof (cases "e \<le> cur + step")
    case True
    then have r: "slot_loop e step n (j # idxs) cur slots = slots @ [(strftime cur, strftime e)]"
      by (auto simp: Let_def)
    have "map (\<lambda>k. slot_at cur e step (Suc k)) [0..<length idxs]
          = map (\<lambda>k. (strftime e, strftime e)) [0..<length idxs]"
      using slot_at_past [OF Cons.prems(1) True] by simp
    then have "map (\<lambda>k. slot_at cur e step (Suc k)) [0..<length idxs]
          = replicate (length idxs) (strftime e, strftime e)"
      by (simp add: map_replicate_const)
    then show ?thesis using r split first True by (simp add: min_def)
  next
    case False
    then have notlast: "idxs \<noteq> []" using Cons.prems(3) by auto
    have r: "slot_loop e step n (j # idxs) cur slots
              = slot_loop e step n idxs (cur + step) (slots @ [(strftime cur, strftime (cur + step))])"
      using False notlast last_iff by (simp add: Let_def)
    have p3: "e \<le> (cur + step) + int (length idxs) * step"
      using Cons.prems(3) by (simp add: algebra_simps)
    have lt: "cur + step < e" using False by simp
    note IH = Cons.IH [OF Cons.prems(1) lt p3 i(2), of "slots @ [(strftime cur, strftime (cur + step))]"]
    have m: "min (cur + step) e = cur + step" using False by simp
    show ?thesis using IH r split first m by (simp add: slot_at_Suc)
  qed
qed

lemma build_time_slots_closed:
  assumes "strptime start_time = Inr s0" "strptime end_time = Inr e0" "0 < n"
    "snap_down s0 < snap_up e0"
  shows "build_time_slots start_time end_time n =
           Inr (map (slot_at (snap_down s0) (snap_up e0) (slot_step (snap_up e0 - snap_down s0) n))
                  [0..<nat n])"
proof -
  let ?S = "snap_down s0" and ?E = "snap_up e0"
  let ?step = "slot_step (?E - ?S) n"
  let ?r = "slot_loop ?E ?step n [0..<nat n] ?S []"
  have pos: "0 < ?step" using slot_step_ge_30 [of "?E - ?S" n] by linarith
  have cov: "?E \<le> ?S + int (length [0..<nat n]) * ?step"
    using slot_step_covers [OF assms(3), of "?E - ?S"] by simp
  have cl: "length ?r \<le> length ([]::(string \<times> string) list) + length [0..<nat n] \<and>
        ?r @ replicate (length ([]::(string \<times> string) list) + length [0..<nat n] - length ?r)
               (strftime ?E, strftime ?E)
        = [] @ map (slot_at ?S ?E ?step) [0..<length [0..<nat n]]"
    by (rule slot_loop_closed [OF pos assms(4) cov refl])
  then have pad: "?r @ replicate (nat n - length ?r) (strftime ?E, strftime ?E)
        = map (slot_at ?S ?E ?step) [0..<nat n]"
    by simp
  have "take (nat n) (?r @ replicate (nat n - length ?r) (strftime ?E, strftime ?E))
        = map (slot_at ?S ?E ?step) [0..<nat n]"
    unfolding pad by simp
  moreover have "max 0 (?E - ?S) = ?E - ?S" using assms(4) by simp
  ultimately show ?thesis
    using assms by (simp add: build_time_slots_def Let_def)
qed

text \<open>
  Claim C6. For a start and an end time that parse, \<open>build_time_slots\<close> snaps the start down
  and the end up to a half-hour boundary; with a positive slot count and a non-empty day it
  returns exactly \<open>n\<close> slots, slot \<open>i\<close> running from \<open>start + i * step\<close> to
  \<open>start + (i + 1) * step\<close> with
  \<open>step = max(30, ceil(ceil(total_minutes / n) / 30) * 30)\<close>, every boundary clamped to
  the end of the day (so the slots past the end are zero-width slots at the end time, and the
  last slot ends at the end time, \<open>n\<close> steps covering the day). In particular
  \<open>build_time_slots("09:00", "22:00", 6)\<close> returns six slots whose strings are \<open>HH:MM\<close> on a
  \<open>:00\<close> or \<open>:30\<close> boundary, contiguous, non-decreasing, the last ending at \<open>22:00\<close>.
\<close>

theorem build_time_slots_tiling:
  "(strptime start_time = Inr s0 \<and> strptime end_time = Inr e0 \<and> 0 < n \<and>
    snap_down s0 < snap_up e0 \<longrightarrow>
      snap_down s0 \<le> s0 \<and> s0 < snap_down s0 + 30 \<and> snap_down s0 mod 30 = 0 \<and>
      e0 \<le> snap_up e0 \<and> snap_up e0 < e0 + 30 \<and> snap_up e0 mod 30 = 0 \<and>
      (let start = snap_down s0; end = snap_up e0;
           step = max 30 (\<lceil>(of_int \<lceil>(of_int (end - start) :: rat) / of_int n\<rceil> :: rat) / 30\<rceil> * 30)
       in end \<le> start + n * step \<and>
          build_time_slots start_time end_time n =
            Inr (map (\<lambda>i. (strftime (min (start + int i * step) end),
                           strftime (min (start + (int i + 1) * step) end)))
                   [0..<nat n]))) \<and>
   build_time_slots ''09:00'' ''22:00'' 6 =
     Inr [(''09:00'', ''11:30''), (''11:30'', ''14:00''), (''14:00'', ''16:30''),
          (''16:30'', ''19:00''), (''19:00'', ''21:30''), (''21:30'', ''22:00'')] \<and>
   list_all (\<lambda>(a, b). on_half_hour a \<and> on_half_hour b)
     [(''09:00'', ''11:30''), (''11:30'', ''14:00''), (''14:00'', ''16:30''),
      (''16:30'', ''19:00''), (''19:00'', ''21:30''), (''21:30'', ''22:00'')] \<and>
   map snd (butlast [(''09:00'', ''11:30''), (''11:30'', ''14:00''), (''14:00'', ''16:30''),
      (''16:30'', ''19:00''), (''19:00'', ''21:30''), (''21:30'', ''22:00'')]) =
   map fst (tl [(''09:00'', ''11:30''), (''11:30'', ''14:00''), (''14:00'', ''16:30''),
      (''16:30'', ''19:00''), (''19:00'', ''21:30''), (''21:30'', ''22:00'')]) \<and>
   sorted (concat (map (\<lambda>(a, b). [minutes_of a, minutes_of b])
     [(''09:00'', ''11:30''), (''11:30'', ''14:00''), (''14:00'', ''16:30''),
      (''16:30'', ''19:00''), (''19:00'', ''21:30''), (''21:30'', ''22:00'')])) \<and>
   snd (last [(''09:00'', ''11:30''), (''11:30'', ''14:00''), (''14:00'', ''16:30''),
      (''16:30'', ''19:00''), (''19:00'', ''21:30''), (''21:30'', ''22:00'')]) = ''22:00''"
proof -
  have general: "snap_down s0 \<le> s0 \<and> s0 < snap_down s0 + 30 \<and> snap_down s0 mod 30 = 0 \<and>
      e0 \<le> snap_up e0 \<and> snap_up e0 < e0 + 30 \<and> snap_up e0 mod 30 = 0 \<and>
      (let start = snap_down s0; end = snap_up e0;
           step = max 30 (\<lceil>(of_int \<lceil>(of_int (end - start) :: rat) / of_int n\<rceil> :: rat) / 30\<rceil> * 30)
       in end \<le> start + n * step \<and>
          build_time_slots start_time end_time n =
            Inr (map (\<lambda>i. (strftime (min (start + int i * step) end),
                           strftime (min (start + (int i + 1) * step) end)))
                   [0..<nat n]))"
    if h: "strptime start_time = Inr s0" "strptime end_time = Inr e0" "0 < n"
      "snap_down s0 < snap_up e0"
  proof -
    have cov: "snap_up e0 \<le> snap_down s0 + n * slot_step (snap_up e0 - snap_down s0) n"
      using slot_step_covers [OF h(3), of "snap_up e0 - snap_down s0"] h(3) by simp
    have "build_time_slots start_time end_time n =
           Inr (map (slot_at (snap_down s0) (snap_up e0) (slot_step (snap_up e0 - snap_down s0) n))
                  [0..<nat n])"
      by (rule build_time_slots_closed [OF h])
    then show ?thesis
      using snap_down_bounds [of s0] snap_up_bounds [of e0] cov
      unfolding slot_at_def slot_step_def Let_def by simp
  qed
  have run: "build_time_slots ''09:00'' ''22:00'' 6 =
     Inr [(''09:00'', ''11:30''), (''11:30'', ''14:00''), (''14:00'', ''16:30''),
          (''16:30'', ''19:00''), (''19:00'', ''21:30''), (''21:30'', ''22:00'')]"
    by code_simp
  have bnd: "list_all (\<lambda>(a, b). on_half_hour a \<and> on_half_hour b)
     [(''09:00'', ''11:30''), (''11:30'', ''14:00''), (''14:00'', ''16:30''),
      (''16:30'', ''19:00''), (''19:00'', ''21:30''), (''21:30'', ''22:00'')]"
    by code_simp
  have srt: "sorted (concat (map (\<lambda>(a, b). [minutes_of a, minutes_of b])
     [(''09:00'', ''11:30''), (''11:30'', ''14:00''), (''14:00'', ''16:30''),
      (''16:30'', ''19:00''), (''19:00'', ''21:30''), (''21:30'', ''22:00'')]))"
    by code_simp
  show ?thesis using general run bnd srt by simp
qed

text \<open>
  An instance of the general part: from 08:10 to 20:40 in four slots, the day is 08:00
  to 21:00, 780 minutes, and the step 210 minutes.
\<close>

theorem build_time_slots_tiling_witness:
  "strptime ''08:10'' = Inr 490 \<and> strptime ''20:40'' = Inr 1240 \<and> (0::int) < 4 \<and>
   snap_down 490 = 480 \<and> snap_up 1240 = 1260 \<and>
   build_time_slots ''08:10'' ''20:40'' 4 =
     Inr [(''08:00'', ''11:30''), (''11:30'', ''15:00''), (''15:00'', ''18:30''),
          (''18:30'', ''21:00'')]"
proof -
  have p: "strptime ''08:10'' = Inr 490" "strptime ''20:40'' = Inr 1240" by code_simp+
  have s: "snap_down 490 = 480" "snap_up 1240 = 1260" by code_simp+
  have lt: "snap_down 490 < snap_up 1240" using s by simp
  have v: "map (\<lambda>i. (strftime (min (480 + int i * 210) 1260),
                     strftime (min (480 + (int i + 1) * 210) 1260))) [0..<nat 4]
        = [(''08:00'', ''11:30''), (''11:30'', ''15:00''), (''15:00'', ''18:30''),
           (''18:30'', ''21:00'')]"
    by code_simp
  have st: "max 30 (\<lceil>(of_int \<lceil>(of_int (1260 - 480) :: rat) / of_int 4\<rceil> :: rat) / 30\<rceil> * 30) = (210::int)"
    by code_simp
  show ?thesis
    using build_time_slots_tiling [of "''08:10''" 490 "''20:40''" 1240 4] p s lt v st
    by (simp add: Let_def)
qed

subsection \<open>Location index\<close>

text \<open>
  Claim C8 (the code departs from it). The catalogue \<open>rows0\<close> is loaded into a fresh
  preprocessor, which then lists Cairo/Egypt (2 POIs), Giza/Egypt and Paris/France (1 each).
  \<open>get_location_suggestions("pari")\<close>, the partial country left at its default \<open>""\<close>,
  returns all three locations, although neither \<open>cairo\<close> nor \<open>egypt\<close> nor \<open>giza\<close>
  contains \<open>pari\<close>: the test \<open>not partial_country_lower\<close> holds for the text that was not
  given, and the two tests are joined by \<open>or\<close>, so nothing is filtered. When both texts are
  given (\<open>CAI\<close> and \<open>zz\<close>) only the matching location is returned.
\<close>

theorem get_location_suggestions_unfiltered:
  "available_locations state0 =
     [(''Cairo'', ''Egypt'', 2), (''Giza'', ''Egypt'', 1), (''Paris'', ''France'', 1)] \<and>
   get_location_suggestions state0 ''pari'' [] =
     [(''Cairo'', ''Egypt'', 2), (''Giza'', ''Egypt'', 1), (''Paris'', ''France'', 1)] \<and>
   str_in (lower ''pari'') (lower ''Cairo'') = False \<and>
   str_in (lower ''pari'') (lower ''Giza'') = False \<and>
   str_in (lower ''pari'') (lower ''Egypt'') = False \<and>
   str_in (lower ''pari'') (lower ''Paris'') = True \<and>
   get_location_suggestions state0 ''CAI'' ''zz'' = [(''Cairo'', ''Egypt'', 2)]"
  by code_simp

subsection \<open>Building the itinerary\<close>

lemma find_pois_strings_no_error:
  "\<not> isl (fst (find_pois_for_location db st (Some c) (Some k)))"
  by (simp add: find_pois_for_location_def Let_def split: prod.splits option.splits)

lemma build_itinerary_load_failed:
  assumes "\<not> data_initialized w" and "\<not> fst (load_all_data db (pre w))"
  shows "fst (build_itinerary db w cty ctry start_time end_time theme) =
           Inr (empty_itinerary cty ''Failed to load data'')"
proof -
  obtain loaded p1 where l: "load_all_data db (pre w) = (loaded, p1)"
    by (cases "load_all_data db (pre w)")
  have "\<not> loaded" using assms(2) l by simp
  then show ?thesis using assms(1) l by (simp add: build_itinerary_def Let_def)
qed

lemma build_itinerary_nothing_found:
  assumes "data_initialized w \<or> fst (load_all_data db (pre w))"
    and "fst (find_pois_for_location db
           (if data_initialized w then pre w else snd (load_all_data db (pre w))) cty ctry) = Inr []"
  shows "fst (build_itinerary db w cty ctry start_time end_time theme) =
           Inr (empty_itinerary cty (''No places found for '' @ str_of cty @ '', '' @ str_of ctry))"
proof (cases "data_initialized w")
  case True
  obtain found p2 where f: "find_pois_for_location db (pre w) cty ctry = (found, p2)"
    by (cases "find_pois_for_location db (pre w) cty ctry")
  have "found = Inr []" using assms(2) True f by simp
  then show ?thesis using True f by (simp add: build_itinerary_def Let_def)
next
  case False
  obtain loaded p1 where l: "load_all_data db (pre w) = (loaded, p1)"
    by (cases "load_all_data db (pre w)")
  have ld: "loaded" using assms(1) False l by simp
  obtain found p2 where f: "find_pois_for_location db p1 cty ctry = (found, p2)"
    by (cases "find_pois_for_location db p1 cty ctry")
  have "found = Inr []" using assms(2) False l f by simp
  then show ?thesis using False l ld f by (simp add: build_itinerary_def Let_def)
qed

text \<open>
  Claim C7 (amended). When the data is not yet initialised and the catalogue cannot be
  loaded (it is unreadable or empty), \<open>build_itinerary\<close> returns a result with
  \<open>days_count = 0\<close>, an empty list of days and the description \<open>Failed to load data\<close>.
  Otherwise, when the lookup resolves no POI for the requested city and country, it returns
  a result with \<open>days_count = 0\<close>, an empty list of days and the description
  \<open>No places found for <city>, <country>\<close>. In both cases it returns normally, whatever the
  times and the theme, and for a city and a country that are strings the lookup never raises.
\<close>

theorem build_itinerary_no_places:
  "(\<not> data_initialized w \<and> \<not> fst (load_all_data db (pre w)) \<longrightarrow>
      fst (build_itinerary db w cty ctry start_time end_time theme) =
        Inr \<lparr> days_count = 0, plan_name = ''Trip in '' @ str_of cty,
              short_description = ''Failed to load data'', days = [] \<rparr>) \<and>
   ((data_initialized w \<or> fst (load_all_data db (pre w))) \<and>
    fst (find_pois_for_location db
           (if data_initialized w then pre w else snd (load_all_data db (pre w))) cty ctry) = Inr [] \<longrightarrow>
      fst (build_itinerary db w cty ctry start_time end_time theme) =
        Inr \<lparr> days_count = 0, plan_name = ''Trip in '' @ str_of cty,
              short_description = ''No places found for '' @ str_of cty @ '', '' @ str_of ctry,
              days = [] \<rparr>) \<and>
   \<not> isl (fst (find_pois_for_location db st (Some c) (Some k)))"
  using build_itinerary_load_failed [of w db cty ctry start_time end_time theme]
        build_itinerary_nothing_found [of w db cty ctry start_time end_time theme]
        find_pois_strings_no_error [of db st c k]
  by (simp add: empty_itinerary_def)

text \<open>
  Instances: the first call of a fresh process on the catalogue \<open>rows0\<close>, which has no POI
  for Atlantis, Nowhere; and the first call of a fresh process whose database cannot be read.
\<close>

theorem build_itinerary_no_places_witness:
  "fst (load_all_data (Some rows0) init_preprocessor) = True \<and>
   fst (find_pois_for_location (Some rows0) (snd (load_all_data (Some rows0) init_preprocessor))
          (Some ''Atlantis'') (Some ''Nowhere'')) = Inr [] \<and>
   fst (build_itinerary (Some rows0) \<lparr>pre = init_preprocessor, data_initialized = False\<rparr>
          (Some ''Atlantis'') (Some ''Nowhere'') ''09:00'' ''22:00'' None) =
     Inr \<lparr> days_count = 0, plan_name = ''Trip in Atlantis'',
           short_description = ''No places found for Atlantis, Nowhere'', days = [] \<rparr> \<and>
   fst (load_all_data None init_preprocessor) = False \<and>
   fst (build_itinerary None \<lparr>pre = init_preprocessor, data_initialized = False\<rparr>
          (Some ''Atlantis'') (Some ''Nowhere'') ''09:00'' ''22:00'' None) =
     Inr \<lparr> days_count = 0, plan_name = ''Trip in Atlantis'',
           short_description = ''Failed to load data'', days = [] \<rparr>"
proof -
  let ?w = "\<lparr>pre = init_preprocessor, data_initialized = False\<rparr>"
  have a: "fst (load_all_data (Some rows0) init_preprocessor) = True" by code_simp
  have b: "fst (find_pois_for_location (Some rows0) (snd (load_all_data (Some rows0) init_preprocessor))
          (Some ''Atlantis'') (Some ''Nowhere'')) = Inr []"
    by code_simp
  have c: "fst (load_all_data None init_preprocessor) = False"
    by (simp add: load_all_data_def)
  show ?thesis
    using a b c
      build_itinerary_no_places [of ?w "Some rows0" "Some ''Atlantis''" "Some ''Nowhere''"
        "''09:00''" "''22:00''" None]
      build_itinerary_no_places [of ?w None "Some ''Atlantis''" "Some ''Nowhere''"
        "''09:00''" "''22:00''" None]
    by (simp add: str_of_def)
qed

text \<open>
  The claim as stated fails. On an empty catalogue no POI resolves for Atlantis, Nowhere,
  and the first call answers \<open>Failed to load data\<close>, which does not say that no places were
  found. And with the defaults \<open>city=None\<close>, \<open>country=None\<close> on the catalogue \<open>rows0\<close> the
  lookup raises AttributeError.
\<close>

theorem build_itinerary_no_places_counterexample:
  "fst (find_pois_for_location (Some []) init_preprocessor
          (Some ''Atlantis'') (Some ''Nowhere'')) = Inr [] \<and>
   fst (build_itinerary (Some []) \<lparr>pre = init_preprocessor, data_initialized = False\<rparr>
          (Some ''Atlantis'') (Some ''Nowhere'') ''09:00'' ''22:00'' None) =
     Inr \<lparr> days_count = 0, plan_name = ''Trip in Atlantis'',
           short_description = ''Failed to load data'', days = [] \<rparr> \<and>
   fst (build_itinerary (Some rows0) \<lparr>pre = init_preprocessor, data_initialized = False\<rparr>
          None None ''09:00'' ''22:00'' None) = Inl AttributeError"
  by code_simp

end
